theory Spec2Isabelle
  imports Main
begin

section \<open>Data model (types.ts)\<close>

datatype ConnectionState = DISCONNECTED | CONNECTING | CONNECTED | ERROR

text \<open>
  \<^verbatim>\<open>TranscriptionItem\<close>: the fields \<^verbatim>\<open>id\<close> and \<^verbatim>\<open>text\<close> carry a suffix, since
  both names are taken in HOL. \<^verbatim>\<open>isUser\<close> is true for input (meeting audio) and false for
  model output (the suggestion).
\<close>

record TranscriptionItem =
  id_t :: string
  timestamp :: int
  text_t :: string
  isUser :: bool
  isComplete :: bool

section \<open>The browser platform: tracks, streams, audio contexts\<close>

datatype TrackKind = AudioTrack | VideoTrack

record MediaStreamTrack =
  track_id :: nat
  kind :: TrackKind

text \<open>A \<^verbatim>\<open>MediaStream\<close> is the list its \<^verbatim>\<open>getTracks()\<close> returns.\<close>

type_synonym MediaStream = "MediaStreamTrack list"

definition getAudioTracks :: "MediaStream \<Rightarrow> MediaStreamTrack list" where
  "getAudioTracks ms = filter (\<lambda>t. kind t = AudioTrack) ms"

definition getVideoTracks :: "MediaStream \<Rightarrow> MediaStreamTrack list" where
  "getVideoTracks ms = filter (\<lambda>t. kind t = VideoTrack) ms"

datatype ReadyState = Live | Ended

text \<open>
  What the program can observe and change outside its own variables:
  \<^item> \<open>readyState\<close>: the \<^verbatim>\<open>readyState\<close> of every track object, by track id;
  \<^item> \<open>stopCalls\<close>: the ids of the tracks on which the program has called \<^verbatim>\<open>stop()\<close>, in
    call order (a call on an ended track is recorded too);
  \<^item> \<open>openContexts\<close>: the \<^verbatim>\<open>AudioContext\<close>s created and not closed;
  \<^item> \<open>onended\<close>: the \<^verbatim>\<open>onended\<close> handler of a track. The only handler the program installs
    is \<^verbatim>\<open>() => { handleStopMeeting(); }\<close>, so a handler is represented by the value of
    \<^verbatim>\<open>stream\<close> bound in the closure of that \<^verbatim>\<open>handleStopMeeting\<close>;
  \<^item> \<open>sessionCallbacks\<close>: for every session requested through \<^verbatim>\<open>ai.live.connect\<close>, the
    \<^verbatim>\<open>stream\<close> bound in the callbacks passed with the request;
  \<^item> \<open>sessionInput\<close>: the text instructions handed to a session, with the session's id.
\<close>

record Platform =
  readyState :: "nat \<Rightarrow> ReadyState"
  stopCalls :: "nat list"
  openContexts :: "nat list"
  onended :: "nat \<rightharpoonup> MediaStream option"
  sessionCallbacks :: "nat \<rightharpoonup> MediaStream"
  sessionInput :: "(nat \<times> string) list"

definition track_stop :: "MediaStreamTrack \<Rightarrow> Platform \<Rightarrow> Platform" where
  "track_stop t p =
     p\<lparr>readyState := (readyState p)(track_id t := Ended),
       stopCalls := stopCalls p @ [track_id t]\<rparr>"

text \<open>\<^verbatim>\<open>tracks.forEach(track => track.stop())\<close>\<close>

fun stop_each :: "MediaStreamTrack list \<Rightarrow> Platform \<Rightarrow> Platform" where
  "stop_each [] p = p"
| "stop_each (t # ts) p = stop_each ts (track_stop t p)"

text \<open>
  A thrown JavaScript value, as far as the program reads it: \<^verbatim>\<open>err.name\<close> and
  \<^verbatim>\<open>err.message\<close>. An absent message is the empty string (both are falsy).
\<close>

record JsError =
  err_name :: string
  err_message :: string

definition new_Error :: "string \<Rightarrow> JsError" where
  "new_Error msg = \<lparr>err_name = ''Error'', err_message = msg\<rparr>"

fun startsWith :: "string \<Rightarrow> string \<Rightarrow> bool" where
  "startsWith _ [] = True"
| "startsWith [] (_ # _) = False"
| "startsWith (x # xs) (y # ys) = (x = y \<and> startsWith xs ys)"

text \<open>\<^verbatim>\<open>String.prototype.includes\<close>\<close>

fun includes_str :: "string \<Rightarrow> string \<Rightarrow> bool" where
  "includes_str [] sub = (sub = [])"
| "includes_str (x # xs) sub = (startsWith (x # xs) sub \<or> includes_str xs sub)"

section \<open>The session channel (services/geminiLive.ts)\<close>

text \<open>
  The fields of \<^verbatim>\<open>GeminiLiveService\<close> that change. \<open>sessionPromise\<close> holds the id of the
  requested session, \<open>inputAudioContext\<close> the id of the 16 kHz context,
  \<open>mediaStreamSource\<close> the stream the source node reads, \<open>scriptProcessor\<close> the buffer size
  of the processor node.
\<close>

record GeminiLiveService =
  sessionPromise :: "nat option"
  inputAudioContext :: "nat option"
  mediaStreamSource :: "MediaStream option"
  scriptProcessor :: "nat option"

text \<open>The two callbacks the service was constructed with, as the calls it makes.\<close>

datatype Callback =
    OnStateChange ConnectionState
  | OnTranscriptionUpdate TranscriptionItem

text \<open>
  \<^verbatim>\<open>connect(stream)\<close>. The first argument is what \<^verbatim>\<open>this.ai.live.connect(...)\<close> does: it
  throws, or returns the promise of a session (its id).
\<close>

definition connect ::
  "JsError + nat \<Rightarrow> MediaStream \<Rightarrow> GeminiLiveService \<Rightarrow> Platform
     \<Rightarrow> Callback list \<times> GeminiLiveService \<times> Platform" where
  "connect live strm sv p =
     (case live of
        Inr sid \<Rightarrow>
          ([OnStateChange CONNECTING],
           sv\<lparr>sessionPromise := Some sid\<rparr>,
           p\<lparr>sessionCallbacks := (sessionCallbacks p)(sid \<mapsto> strm)\<rparr>)
      | Inl error \<Rightarrow>
          ([OnStateChange CONNECTING, OnStateChange ERROR], sv, p))"

text \<open>\<^verbatim>\<open>startAudioStream(stream)\<close>; \<open>ctx\<close> is the id of the context the platform creates.\<close>

definition startAudioStream ::
  "nat \<Rightarrow> MediaStream \<Rightarrow> GeminiLiveService \<Rightarrow> Platform \<Rightarrow> GeminiLiveService \<times> Platform" where
  "startAudioStream ctx strm sv p =
     (sv\<lparr>inputAudioContext := Some ctx, mediaStreamSource := Some strm,
         scriptProcessor := Some 4096\<rparr>,
      p\<lparr>openContexts := openContexts p @ [ctx]\<rparr>)"

definition stopAudioStream ::
  "GeminiLiveService \<Rightarrow> Platform \<Rightarrow> GeminiLiveService \<times> Platform" where
  "stopAudioStream sv p =
     (let sv1 = (if mediaStreamSource sv \<noteq> None then sv\<lparr>mediaStreamSource := None\<rparr> else sv);
          sv2 = (if scriptProcessor sv1 \<noteq> None then sv1\<lparr>scriptProcessor := None\<rparr> else sv1)
      in case inputAudioContext sv2 of
           Some ctx \<Rightarrow>
             (sv2\<lparr>inputAudioContext := None\<rparr>,
              p\<lparr>openContexts := removeAll ctx (openContexts p)\<rparr>)
         | None \<Rightarrow> (sv2, p))"

definition disconnect ::
  "GeminiLiveService \<Rightarrow> Platform \<Rightarrow> Callback list \<times> GeminiLiveService \<times> Platform" where
  "disconnect sv p =
     (let (sv1, p1) =
            (if sessionPromise sv \<noteq> None
             then (let (sv', p') = stopAudioStream sv p in (sv'\<lparr>sessionPromise := None\<rparr>, p'))
             else (sv, p))
      in ([OnStateChange DISCONNECTED], sv1, p1))"

definition suggestionInstruction :: string where
  "suggestionInstruction = ''Based on the conversation, suggest a response now.''"

definition requestSuggestion :: "GeminiLiveService \<Rightarrow> Platform \<Rightarrow> Platform" where
  "requestSuggestion sv p =
     (case sessionPromise sv of
        Some sid \<Rightarrow> p\<lparr>sessionInput := sessionInput p @ [(sid, suggestionInstruction)]\<rparr>
      | None \<Rightarrow> p)"

text \<open>
  An inbound \<^verbatim>\<open>LiveServerMessage\<close>, as far as \<^verbatim>\<open>handleMessage\<close> reads it. Every level is
  optional in the source (\<^verbatim>\<open>message.serverContent?.inputTranscription\<close>, then \<^verbatim>\<open>.text\<close>).
\<close>

record Transcription =
  text_opt :: "string option"

record ServerContent =
  inputTranscription :: "Transcription option"
  outputTranscription :: "Transcription option"
  turnComplete :: "bool option"

record LiveServerMessage =
  serverContent :: "ServerContent option"

text \<open>
  What \<^verbatim>\<open>Date.now()\<close> and \<^verbatim>\<open>Math.random()\<close> give while one item is built: the id string
  and the timestamp.
\<close>

record Stamp =
  stamp_id :: string
  stamp_now :: int

definition transcriptionItem :: "Stamp \<Rightarrow> string \<Rightarrow> bool \<Rightarrow> bool option \<Rightarrow> TranscriptionItem" where
  "transcriptionItem st txt user tc =
     \<lparr>id_t = stamp_id st, timestamp = stamp_now st, text_t = txt, isUser = user,
      isComplete = (tc = Some True)\<rparr>"

text \<open>
  \<^verbatim>\<open>handleMessage(message)\<close>: the calls of \<^verbatim>\<open>onTranscriptionUpdate\<close> it makes, in order.
  \<open>st_in\<close> stamps the input-side item, \<open>st_out\<close> the output-side one. The test
  \<^verbatim>\<open>if (text)\<close> fails for an absent text and for the empty string.
\<close>

definition handleMessage :: "Stamp \<Rightarrow> Stamp \<Rightarrow> LiveServerMessage \<Rightarrow> Callback list" where
  "handleMessage st_in st_out message =
     (case serverContent message of
        None \<Rightarrow> []
      | Some sc \<Rightarrow>
          (case inputTranscription sc of
             None \<Rightarrow> []
           | Some tr \<Rightarrow>
               (case text_opt tr of
                  None \<Rightarrow> []
                | Some txt \<Rightarrow>
                    if txt \<noteq> []
                    then [OnTranscriptionUpdate
                            (transcriptionItem st_in txt True (turnComplete sc))]
                    else []))
          @
          (case outputTranscription sc of
             None \<Rightarrow> []
           | Some tr \<Rightarrow>
               (case text_opt tr of
                  None \<Rightarrow> []
                | Some txt \<Rightarrow>
                    if txt \<noteq> []
                    then [OnTranscriptionUpdate
                            (transcriptionItem st_out txt False (turnComplete sc))]
                    else [])))"

text \<open>
  The callbacks the service passes to the SDK. \<^verbatim>\<open>onopen\<close> starts the outbound audio on the
  stream bound at \<^verbatim>\<open>connect\<close>; \<^verbatim>\<open>onclose\<close> and \<^verbatim>\<open>onerror\<close> stop it.
\<close>

definition sdk_onopen ::
  "MediaStream \<Rightarrow> nat \<Rightarrow> GeminiLiveService \<Rightarrow> Platform
     \<Rightarrow> Callback list \<times> GeminiLiveService \<times> Platform" where
  "sdk_onopen strm ctx sv p =
     (let (sv', p') = startAudioStream ctx strm sv p in ([OnStateChange CONNECTED], sv', p'))"

definition sdk_onclose ::
  "GeminiLiveService \<Rightarrow> Platform \<Rightarrow> Callback list \<times> GeminiLiveService \<times> Platform" where
  "sdk_onclose sv p =
     (let (sv', p') = stopAudioStream sv p in ([OnStateChange DISCONNECTED], sv', p'))"

definition sdk_onerror ::
  "GeminiLiveService \<Rightarrow> Platform \<Rightarrow> Callback list \<times> GeminiLiveService \<times> Platform" where
  "sdk_onerror sv p =
     (let (sv', p') = stopAudioStream sv p in ([OnStateChange ERROR], sv', p'))"

section \<open>The lifecycle controller (App.tsx)\<close>

text \<open>
  The component's state (\<^verbatim>\<open>useState\<close>), its two refs, and the platform. The service held
  in \<^verbatim>\<open>geminiServiceRef\<close> is created on mount and never replaced, so the ref is modelled as
  the service itself.
\<close>

record App =
  connectionState :: ConnectionState
  stream :: "MediaStream option"
  transcripts :: "TranscriptionItem list"
  currentSuggestion :: "TranscriptionItem option"
  isGenerating :: bool
  errorMsg :: "string option"
  activeTracksRef :: "MediaStreamTrack list"
  geminiServiceRef :: GeminiLiveService
  platform :: Platform

text \<open>
  The two callbacks given to the service on mount: the transcript callback appends the item
  (\<^verbatim>\<open>prev => [...prev, item]\<close>) and, for a model response, clears the indicator and fills
  the slot; the state callback is \<^verbatim>\<open>setConnectionState\<close>.
\<close>

fun deliver :: "Callback \<Rightarrow> App \<Rightarrow> App" where
  "deliver (OnTranscriptionUpdate item) s =
     (let s1 = s\<lparr>transcripts := transcripts s @ [item]\<rparr>
      in if \<not> isUser item then s1\<lparr>isGenerating := False, currentSuggestion := Some item\<rparr>
         else s1)"
| "deliver (OnStateChange st) s = s\<lparr>connectionState := st\<rparr>"

fun deliver_each :: "Callback list \<Rightarrow> App \<Rightarrow> App" where
  "deliver_each [] s = s"
| "deliver_each (c # cs) s = deliver_each cs (deliver c s)"

text \<open>A method call on the service: its effect on service and platform, then its callbacks.\<close>

definition call_service ::
  "(GeminiLiveService \<Rightarrow> Platform \<Rightarrow> Callback list \<times> GeminiLiveService \<times> Platform)
     \<Rightarrow> App \<Rightarrow> App" where
  "call_service m s =
     (case m (geminiServiceRef s) (platform s) of
        (cbs, sv, p) \<Rightarrow> deliver_each cbs (s\<lparr>geminiServiceRef := sv, platform := p\<rparr>))"

definition cleanupTracks :: "App \<Rightarrow> App" where
  "cleanupTracks s =
     s\<lparr>platform := stop_each (activeTracksRef s) (platform s), activeTracksRef := []\<rparr>"

subsection \<open>Starting a meeting\<close>

text \<open>
  What the platform answers during one start attempt, call by call: the two capture
  requests, \<^verbatim>\<open>new AudioContext()\<close> (the id of the context), whether the context starts
  suspended and what \<^verbatim>\<open>resume()\<close> does then, \<^verbatim>\<open>createMediaStreamDestination()\<close> (the stream
  of the destination node, with tracks of its own), the two \<^verbatim>\<open>createMediaStreamSource\<close>
  calls, and \<^verbatim>\<open>ai.live.connect\<close>. \<^verbatim>\<open>createGain\<close> and \<^verbatim>\<open>connect\<close> on a node of the same
  context do not throw.
\<close>

record StartEnv =
  getUserMedia :: "JsError + MediaStream"
  getDisplayMedia :: "JsError + MediaStream"
  newAudioContext :: "JsError + nat"
  contextSuspended :: bool
  resume :: "JsError option"
  createMediaStreamDestination :: "JsError + MediaStream"
  createMicSource :: "JsError option"
  createDisplaySource :: "JsError option"
  liveConnect :: "JsError + nat"

definition noMicrophoneMessage :: string where
  "noMicrophoneMessage =
     ''No microphone audio track found. Please check your microphone settings.''"

definition noTabAudioMessage :: string where
  "noTabAudioMessage =
     ''Tab audio not detected. Please ensure you check the 'Share tab audio' box in the sharing dialog.''"

definition defaultMessage :: string where
  "defaultMessage =
     ''Failed to access audio. Ensure you select a tab with audio sharing enabled.''"

definition permissionMessage :: string where
  "permissionMessage =
     ''Permission denied. Please allow microphone access and select a tab to share.''"

definition policyMessage :: string where
  "policyMessage =
     ''Screen capture permission policy violation. Please refresh or try a different browser context.''"

text \<open>Step 3 of the source, "Mix Streams", up to \<^verbatim>\<open>dest.stream\<close>.\<close>

definition mixStreams :: "StartEnv \<Rightarrow> Platform \<Rightarrow> (JsError + MediaStream) \<times> Platform" where
  "mixStreams env p =
     (case newAudioContext env of
        Inl e \<Rightarrow> (Inl e, p)
      | Inr audioContext \<Rightarrow>
          (let p1 = p\<lparr>openContexts := openContexts p @ [audioContext]\<rparr>
           in case (if contextSuspended env then resume env else None) of
                Some e \<Rightarrow> (Inl e, p1)
              | None \<Rightarrow>
                  (case createMediaStreamDestination env of
                     Inl e \<Rightarrow> (Inl e, p1)
                   | Inr mixedStream \<Rightarrow>
                       (case createMicSource env of
                          Some e \<Rightarrow> (Inl e, p1)
                        | None \<Rightarrow>
                            (case createDisplaySource env of
                               Some e \<Rightarrow> (Inl e, p1)
                             | None \<Rightarrow> (Inr mixedStream, p1))))))"

text \<open>
  The \<^verbatim>\<open>try\<close> block of \<^verbatim>\<open>handleStartMeeting\<close>: \<open>Inl\<close> is the value thrown, with the state at
  the throw. \<open>captured\<close> is the value of \<^verbatim>\<open>stream\<close> in the render whose
  \<^verbatim>\<open>handleStartMeeting\<close> runs: the \<^verbatim>\<open>handleStopMeeting\<close> put into \<^verbatim>\<open>onended\<close> belongs to the
  same render and reads that value.
\<close>

definition startBody :: "MediaStream option \<Rightarrow> StartEnv \<Rightarrow> App \<Rightarrow> (JsError + unit) \<times> App" where
  "startBody captured env s0 =
     (case getUserMedia env of
        Inl e \<Rightarrow> (Inl e, s0)
      | Inr micStream \<Rightarrow>
          if getAudioTracks micStream = [] then (Inl (new_Error noMicrophoneMessage), s0)
          else
            (let s1 = s0\<lparr>activeTracksRef := activeTracksRef s0 @ micStream\<rparr>
             in case getDisplayMedia env of
                  Inl e \<Rightarrow> (Inl e, s1)
                | Inr displayStream \<Rightarrow>
                    if getAudioTracks displayStream = []
                    then (Inl (new_Error noTabAudioMessage),
                          cleanupTracks (s1\<lparr>platform := stop_each displayStream (platform s1)\<rparr>))
                    else
                      (let s2 = s1\<lparr>activeTracksRef := activeTracksRef s1 @ displayStream\<rparr>
                       in case mixStreams env (platform s2) of
                            (Inl e, p) \<Rightarrow> (Inl e, s2\<lparr>platform := p\<rparr>)
                          | (Inr mixedStream, p) \<Rightarrow>
                              (let s3 = s2\<lparr>platform := p, stream := Some mixedStream\<rparr>;
                                   s4 = call_service (connect (liveConnect env) mixedStream) s3
                               in (Inr (),
                                   case getVideoTracks displayStream of
                                     [] \<Rightarrow> s4
                                   | videoTrack # _ \<Rightarrow>
                                       s4\<lparr>platform := (platform s4)
                                            \<lparr>onended := (onended (platform s4))
                                               (track_id videoTrack \<mapsto> captured)\<rparr>\<rparr>)))))"

text \<open>The message the \<^verbatim>\<open>catch\<close> block shows for a thrown value.\<close>

definition userMessage :: "JsError \<Rightarrow> string" where
  "userMessage err =
     (let msg = (if err_message err \<noteq> [] then err_message err else defaultMessage)
      in if err_name err = ''NotAllowedError'' then permissionMessage
         else if err_message err \<noteq> [] \<and> includes_str (err_message err) ''display-capture''
              then policyMessage
              else msg)"

text \<open>The \<^verbatim>\<open>catch\<close> block.\<close>

definition startFailed :: "JsError \<Rightarrow> App \<Rightarrow> App" where
  "startFailed err s =
     (cleanupTracks s)\<lparr>errorMsg := Some (userMessage err), connectionState := ERROR\<rparr>"

definition handleStartMeeting :: "MediaStream option \<Rightarrow> StartEnv \<Rightarrow> App \<Rightarrow> App" where
  "handleStartMeeting captured env s =
     (case startBody captured env (cleanupTracks (s\<lparr>errorMsg := None\<rparr>)) of
        (Inl err, s1) \<Rightarrow> startFailed err s1
      | (Inr _, s1) \<Rightarrow> s1)"

subsection \<open>Stopping, and asking for a suggestion\<close>

text \<open>
  \<^verbatim>\<open>handleStopMeeting\<close>; \<open>captured\<close> is the value of \<^verbatim>\<open>stream\<close> in the render the closure
  belongs to.
\<close>

definition handleStopMeeting :: "MediaStream option \<Rightarrow> App \<Rightarrow> App" where
  "handleStopMeeting captured s =
     (let s1 = call_service disconnect s;
          s2 = (case captured of
                  Some ms \<Rightarrow> s1\<lparr>platform := stop_each ms (platform s1)\<rparr>
                | None \<Rightarrow> s1);
          s3 = cleanupTracks s2
      in s3\<lparr>stream := None, connectionState := DISCONNECTED\<rparr>)"

definition handleGenerateResponse :: "App \<Rightarrow> App" where
  "handleGenerateResponse s =
     (if connectionState s \<noteq> CONNECTED then s
      else (let s1 = s\<lparr>isGenerating := True, currentSuggestion := None\<rparr>
            in s1\<lparr>platform := requestSuggestion (geminiServiceRef s1) (platform s1)\<rparr>))"

text \<open>\<^verbatim>\<open>onDismiss={() => setCurrentSuggestion(null)}\<close>\<close>

definition onDismiss :: "App \<Rightarrow> App" where
  "onDismiss s = s\<lparr>currentSuggestion := None\<rparr>"

subsection \<open>Events\<close>

text \<open>
  Everything that can happen to the mounted component. A click reaches the handler of the
  latest render, and only on a button that render shows: Start Meeting when the state is
  Disconnected or Error and End Meeting otherwise, Suggest Response unless disabled, the
  dismiss button of the card when a suggestion is shown. A track ends remotely at most once,
  while it is live, and then runs its \<^verbatim>\<open>onended\<close> handler. The SDK calls the callbacks of a
  session that was requested. An asynchronous handler is one step: no other event comes
  between its \<^verbatim>\<open>await\<close>s.
\<close>

datatype Event =
    ClickStart StartEnv
  | ClickEnd
  | ClickSuggest
  | ClickDismiss
  | TrackEnded nat
  | SessionOpened nat nat
  | SessionClosed nat
  | SessionFailed nat
  | SessionMessage nat Stamp Stamp LiveServerMessage

fun fire :: "Event \<Rightarrow> App \<Rightarrow> App" where
  "fire (ClickStart env) s =
     (if connectionState s = DISCONNECTED \<or> connectionState s = ERROR
      then handleStartMeeting (stream s) env s else s)"
| "fire ClickEnd s =
     (if connectionState s = DISCONNECTED \<or> connectionState s = ERROR
      then s else handleStopMeeting (stream s) s)"
| "fire ClickSuggest s =
     (if connectionState s \<noteq> CONNECTED \<or> isGenerating s then s else handleGenerateResponse s)"
| "fire ClickDismiss s =
     (if currentSuggestion s \<noteq> None \<and> \<not> isGenerating s then onDismiss s else s)"
| "fire (TrackEnded tid) s =
     (if readyState (platform s) tid = Ended then s
      else (let s1 = s\<lparr>platform := (platform s)
                        \<lparr>readyState := (readyState (platform s))(tid := Ended)\<rparr>\<rparr>
            in case onended (platform s1) tid of
                 None \<Rightarrow> s1
               | Some captured \<Rightarrow> handleStopMeeting captured s1))"
| "fire (SessionOpened sid ctx) s =
     (case sessionCallbacks (platform s) sid of
        None \<Rightarrow> s
      | Some strm \<Rightarrow> call_service (sdk_onopen strm ctx) s)"
| "fire (SessionClosed sid) s =
     (case sessionCallbacks (platform s) sid of
        None \<Rightarrow> s
      | Some _ \<Rightarrow> call_service sdk_onclose s)"
| "fire (SessionFailed sid) s =
     (case sessionCallbacks (platform s) sid of
        None \<Rightarrow> s
      | Some _ \<Rightarrow> call_service sdk_onerror s)"
| "fire (SessionMessage sid st_in st_out message) s =
     (case sessionCallbacks (platform s) sid of
        None \<Rightarrow> s
      | Some _ \<Rightarrow> deliver_each (handleMessage st_in st_out message) s)"

fun run :: "Event list \<Rightarrow> App \<Rightarrow> App" where
  "run [] s = s"
| "run (e # es) s = run es (fire e s)"

text \<open>The component after mount, in a browser where nothing has happened yet.\<close>

definition newService :: GeminiLiveService where
  "newService =
     \<lparr>sessionPromise = None, inputAudioContext = None, mediaStreamSource = None,
      scriptProcessor = None\<rparr>"

definition freshPlatform :: Platform where
  "freshPlatform =
     \<lparr>readyState = (\<lambda>_. Live), stopCalls = [], openContexts = [], onended = Map.empty,
      sessionCallbacks = Map.empty, sessionInput = []\<rparr>"

definition mounted :: App where
  "mounted =
     \<lparr>connectionState = DISCONNECTED, stream = None, transcripts = [],
      currentSuggestion = None, isGenerating = False, errorMsg = None,
      activeTracksRef = [], geminiServiceRef = newService, platform = freshPlatform\<rparr>"

section \<open>Readers and example inputs\<close>

text \<open>
  \<^verbatim>\<open>message.serverContent?.inputTranscription?.text\<close> and the same for the output side:
  absent when any level is.
\<close>

definition inputText :: "LiveServerMessage \<Rightarrow> string option" where
  "inputText message =
     (case serverContent message of
        None \<Rightarrow> None
      | Some sc \<Rightarrow> (case inputTranscription sc of None \<Rightarrow> None | Some tr \<Rightarrow> text_opt tr))"

definition outputText :: "LiveServerMessage \<Rightarrow> string option" where
  "outputText message =
     (case serverContent message of
        None \<Rightarrow> None
      | Some sc \<Rightarrow> (case outputTranscription sc of None \<Rightarrow> None | Some tr \<Rightarrow> text_opt tr))"

definition absent_or_empty :: "string option \<Rightarrow> bool" where
  "absent_or_empty t = (t = None \<or> t = Some [])"

text \<open>The items handed to the transcript callback by a list of callback calls.\<close>

fun itemsOf :: "Callback list \<Rightarrow> TranscriptionItem list" where
  "itemsOf [] = []"
| "itemsOf (OnTranscriptionUpdate item # cs) = item # itemsOf cs"
| "itemsOf (OnStateChange _ # cs) = itemsOf cs"

text \<open>
  A meeting with one microphone track, a shared tab with one audio and one video track, and
  a destination node whose stream has one track.
\<close>

definition micTrack :: MediaStreamTrack where
  "micTrack = \<lparr>track_id = 1, kind = AudioTrack\<rparr>"

definition tabAudioTrack :: MediaStreamTrack where
  "tabAudioTrack = \<lparr>track_id = 2, kind = AudioTrack\<rparr>"

definition tabVideoTrack :: MediaStreamTrack where
  "tabVideoTrack = \<lparr>track_id = 3, kind = VideoTrack\<rparr>"

definition mixedTrack :: MediaStreamTrack where
  "mixedTrack = \<lparr>track_id = 4, kind = AudioTrack\<rparr>"

definition goodEnv :: StartEnv where
  "goodEnv =
     \<lparr>getUserMedia = Inr [micTrack], getDisplayMedia = Inr [tabAudioTrack, tabVideoTrack],
      newAudioContext = Inr 7, contextSuspended = False, resume = None,
      createMediaStreamDestination = Inr [mixedTrack], createMicSource = None,
      createDisplaySource = None, liveConnect = Inr 1\<rparr>"

definition stampA :: Stamp where
  "stampA = \<lparr>stamp_id = ''1700000000000-0.25'', stamp_now = 1700000000000\<rparr>"

definition stampB :: Stamp where
  "stampB = \<lparr>stamp_id = ''1700000000001-0.75'', stamp_now = 1700000000001\<rparr>"

definition emptyInputMessage :: LiveServerMessage where
  "emptyInputMessage =
     \<lparr>serverContent =
        Some \<lparr>inputTranscription = Some \<lparr>text_opt = Some []\<rparr>,
              outputTranscription = None, turnComplete = None\<rparr>\<rparr>"

definition inputMessage :: "string \<Rightarrow> LiveServerMessage" where
  "inputMessage t =
     \<lparr>serverContent =
        Some \<lparr>inputTranscription = Some \<lparr>text_opt = Some t\<rparr>,
              outputTranscription = None, turnComplete = None\<rparr>\<rparr>"

definition outputMessage :: "string \<Rightarrow> LiveServerMessage" where
  "outputMessage t =
     \<lparr>serverContent =
        Some \<lparr>inputTranscription = None,
              outputTranscription = Some \<lparr>text_opt = Some t\<rparr>, turnComplete = Some True\<rparr>\<rparr>"

text \<open>
  The inbound events E1 (input, hello), E2 (output, hi there), E3 (input, how are you),
  and the items E1 to E4 (output, I'm good) as the service builds them.
\<close>

definition exampleMessages :: "(Stamp \<times> Stamp \<times> LiveServerMessage) list" where
  "exampleMessages =
     [(stampA, stampB, inputMessage ''hello''), (stampA, stampB, outputMessage ''hi there''),
      (stampA, stampB, inputMessage ''how are you'')]"

definition itemHello :: TranscriptionItem where
  "itemHello = transcriptionItem stampA ''hello'' True None"

definition itemHiThere :: TranscriptionItem where
  "itemHiThere = transcriptionItem stampB ''hi there'' False (Some True)"

definition itemHowAreYou :: TranscriptionItem where
  "itemHowAreYou = transcriptionItem stampA ''how are you'' True None"

definition itemImGood :: TranscriptionItem where
  "itemImGood = transcriptionItem stampB ''I'm good'' False (Some True)"

text \<open>
  The texts a message is expected to add to the log, in order: its input text, then its
  output text, each only when present and not empty.
\<close>

definition spokenTexts :: "LiveServerMessage \<Rightarrow> string list" where
  "spokenTexts m =
     (case inputText m of None \<Rightarrow> [] | Some t \<Rightarrow> if t = [] then [] else [t])
     @ (case outputText m of None \<Rightarrow> [] | Some t \<Rightarrow> if t = [] then [] else [t])"

text \<open>The arrival of a message on session \<open>sid\<close>, with the stamps of its items.\<close>

definition messageEvent :: "nat \<Rightarrow> Stamp \<times> Stamp \<times> LiveServerMessage \<Rightarrow> Event" where
  "messageEvent sid x = (case x of (a, b, m) \<Rightarrow> SessionMessage sid a b m)"

text \<open>The output-side items of a list: those from the model.\<close>

definition outputItems :: "TranscriptionItem list \<Rightarrow> TranscriptionItem list" where
  "outputItems items = filter (\<lambda>i. \<not> isUser i) items"

text \<open>\<^verbatim>\<open>stream ? stream.getTracks() : []\<close>\<close>

definition streamTracks :: "MediaStream option \<Rightarrow> MediaStreamTrack list" where
  "streamTracks st = (case st of None \<Rightarrow> [] | Some ms \<Rightarrow> ms)"

text \<open>
  The source tracks the capture calls of a start attempt hand to the program: those of the
  microphone stream, and those of the display stream when the attempt gets as far as
  asking for it.
\<close>

definition capturedTracks :: "StartEnv \<Rightarrow> MediaStreamTrack list" where
  "capturedTracks env =
     (case getUserMedia env of
        Inl _ \<Rightarrow> []
      | Inr micStream \<Rightarrow>
          micStream @
          (if getAudioTracks micStream = [] then []
           else (case getDisplayMedia env of Inl _ \<Rightarrow> [] | Inr displayStream \<Rightarrow> displayStream)))"

text \<open>
  The microphone request is \<^verbatim>\<open>getUserMedia({ audio: true })\<close>: the platform answers it with
  a stream that has no video track.
\<close>

definition micAudioOnly :: "StartEnv \<Rightarrow> bool" where
  "micAudioOnly env =
     (case getUserMedia env of Inl _ \<Rightarrow> True | Inr micStream \<Rightarrow> getVideoTracks micStream = [])"

text \<open>
  The example meeting with a tab shared without audio; with a mixing context that starts
  suspended and cannot be resumed; with a source node that cannot be created, after the
  destination node was; with an \<^verbatim>\<open>ai.live.connect\<close> that throws; the component after a
  successful start, and after the session has opened.
\<close>

definition noTabAudioEnv :: StartEnv where
  "noTabAudioEnv = goodEnv\<lparr>getDisplayMedia := Inr [tabVideoTrack]\<rparr>"

definition resumeError :: JsError where
  "resumeError =
     \<lparr>err_name = ''InvalidStateError'', err_message = ''Cannot resume a closed AudioContext.''\<rparr>"

definition resumeFailsEnv :: StartEnv where
  "resumeFailsEnv = goodEnv\<lparr>contextSuspended := True, resume := Some resumeError\<rparr>"

definition graphError :: JsError where
  "graphError =
     \<lparr>err_name = ''InvalidStateError'',
      err_message = ''Failed to construct the MediaStreamAudioSourceNode.''\<rparr>"

definition graphFailsEnv :: StartEnv where
  "graphFailsEnv = goodEnv\<lparr>createDisplaySource := Some graphError\<rparr>"

definition connectFailsEnv :: StartEnv where
  "connectFailsEnv = goodEnv\<lparr>liveConnect := Inl (new_Error ''Failed to connect.'')\<rparr>"

definition connectingApp :: App where
  "connectingApp = fire (ClickStart goodEnv) mounted"

definition connectedApp :: App where
  "connectedApp = fire (SessionOpened 1 9) connectingApp"

lemmas eval_defs =
  goodEnv_def mounted_def micTrack_def tabAudioTrack_def tabVideoTrack_def mixedTrack_def
  handleStartMeeting_def startBody_def mixStreams_def cleanupTracks_def call_service_def
  connect_def getAudioTracks_def getVideoTracks_def track_stop_def newService_def
  freshPlatform_def sdk_onopen_def startAudioStream_def handleStopMeeting_def disconnect_def
  stopAudioStream_def startFailed_def

section \<open>Properties of the transcript callbacks\<close>

lemma deliver_each_append: "deliver_each (xs @ ys) s = deliver_each ys (deliver_each xs s)"
  by (induction xs arbitrary: s) simp_all

lemma transcripts_deliver_each: "transcripts (deliver_each cs s) = transcripts s @ itemsOf cs"
proof (induction cs arbitrary: s)
  case Nil
  show ?case by simp
next
  case (Cons c cs)
  show ?case by (cases c) (simp_all add: Cons.IH Let_def)
qed

lemma platform_deliver_each [simp]: "platform (deliver_each cs s) = platform s"
proof (induction cs arbitrary: s)
  case Nil
  show ?case by simp
next
  case (Cons c cs)
  show ?case by (cases c) (simp_all add: Cons.IH Let_def)
qed

lemma activeTracksRef_deliver_each [simp]:
  "activeTracksRef (deliver_each cs s) = activeTracksRef s"
proof (induction cs arbitrary: s)
  case Nil
  show ?case by simp
next
  case (Cons c cs)
  show ?case by (cases c) (simp_all add: Cons.IH Let_def)
qed

lemma stream_deliver_each [simp]: "stream (deliver_each cs s) = stream s"
proof (induction cs arbitrary: s)
  case Nil
  show ?case by simp
next
  case (Cons c cs)
  show ?case by (cases c) (simp_all add: Cons.IH Let_def)
qed

lemma itemsOf_map_update [simp]: "itemsOf (map OnTranscriptionUpdate items) = items"
  by (induction items) simp_all

lemma slot_deliver_items:
  "currentSuggestion (deliver_each (map OnTranscriptionUpdate items) s)
     = (if outputItems items = [] then currentSuggestion s else Some (last (outputItems items)))"
proof (induction items arbitrary: s)
  case Nil
  show ?case by (simp add: outputItems_def)
next
  case (Cons i items)
  show ?case by (simp add: Cons.IH outputItems_def Let_def)
qed

text \<open>
  C5. After the items of any list have been handed to the transcript callback, in order,
  the suggestion slot holds the last output-side item of the list, or what it held before
  when the list has none; the log is the old log followed by the whole list, so every
  output-side item is still in it; an output-side item clears the is-generating indicator
  and fills the slot when it arrives. The slot is empty after mount and after a dismissal.
\<close>

theorem current_suggestion_is_latest_output:
  "currentSuggestion (deliver_each (map OnTranscriptionUpdate items) s)
     = (if outputItems items = [] then currentSuggestion s else Some (last (outputItems items)))
   \<and> transcripts (deliver_each (map OnTranscriptionUpdate items) s) = transcripts s @ items
   \<and> set (outputItems items)
        \<subseteq> set (transcripts (deliver_each (map OnTranscriptionUpdate items) s))
   \<and> (\<not> isUser item \<longrightarrow>
        \<not> isGenerating (deliver (OnTranscriptionUpdate item) s)
        \<and> currentSuggestion (deliver (OnTranscriptionUpdate item) s) = Some item)
   \<and> currentSuggestion mounted = None
   \<and> currentSuggestion (onDismiss s) = None"
  by (auto simp: slot_deliver_items transcripts_deliver_each outputItems_def Let_def
        mounted_def onDismiss_def)

theorem current_suggestion_is_latest_output_witness:
  "currentSuggestion (deliver_each
       (map OnTranscriptionUpdate [itemHello, itemHiThere, itemHowAreYou, itemImGood]) mounted)
     = Some itemImGood
   \<and> transcripts (deliver_each
       (map OnTranscriptionUpdate [itemHello, itemHiThere, itemHowAreYou, itemImGood]) mounted)
     = [itemHello, itemHiThere, itemHowAreYou, itemImGood]
   \<and> isGenerating (deliver (OnTranscriptionUpdate itemImGood) (mounted\<lparr>isGenerating := True\<rparr>))
     = False"
proof -
  have o: "outputItems [itemHello, itemHiThere, itemHowAreYou, itemImGood]
             = [itemHiThere, itemImGood]"
    by (simp add: outputItems_def itemHello_def itemHiThere_def itemHowAreYou_def itemImGood_def
          transcriptionItem_def)
  have u: "\<not> isUser itemImGood"
    by (simp add: itemImGood_def transcriptionItem_def)
  have t: "transcripts mounted = []"
    by (simp add: mounted_def)
  show ?thesis
    using u current_suggestion_is_latest_output
            [of "[itemHello, itemHiThere, itemHowAreYou, itemImGood]" mounted itemImGood]
          current_suggestion_is_latest_output
            [of "[]" "mounted\<lparr>isGenerating := True\<rparr>" itemImGood]
    by (simp add: o t)
qed

subsection \<open>Messages without text\<close>

lemma handleMessage_empty_input:
  "absent_or_empty (inputText m) \<Longrightarrow> filter isUser (itemsOf (handleMessage a b m)) = []"
  by (auto simp: absent_or_empty_def inputText_def handleMessage_def transcriptionItem_def split: option.splits)

lemma handleMessage_empty_output:
  "absent_or_empty (outputText m) \<Longrightarrow>
     filter (\<lambda>i. \<not> isUser i) (itemsOf (handleMessage a b m)) = []"
  by (auto simp: absent_or_empty_def outputText_def handleMessage_def transcriptionItem_def split: option.splits)

lemma handleMessage_empty_both:
  "absent_or_empty (inputText m) \<Longrightarrow> absent_or_empty (outputText m) \<Longrightarrow>
     handleMessage a b m = []"
  by (auto simp: absent_or_empty_def inputText_def outputText_def handleMessage_def
        split: option.splits)

lemma texts_handleMessage: "map text_t (itemsOf (handleMessage a b m)) = spokenTexts m"
  by (auto simp: spokenTexts_def inputText_def outputText_def handleMessage_def transcriptionItem_def split: option.splits)

text \<open>
  C9. A message whose input-transcription text is empty or absent produces no input-side
  item, one whose output-transcription text is empty or absent produces no output-side
  item, and when both are empty or absent the transcript callback is not called at all:
  the message leaves the whole component state, log and suggestion slot included, as it
  was.
\<close>

theorem empty_text_produces_no_item:
  "(absent_or_empty (inputText m)
      \<longrightarrow> filter isUser (itemsOf (handleMessage a b m)) = [])
   \<and> (absent_or_empty (outputText m)
      \<longrightarrow> filter (\<lambda>i. \<not> isUser i) (itemsOf (handleMessage a b m)) = [])
   \<and> (absent_or_empty (inputText m) \<and> absent_or_empty (outputText m)
      \<longrightarrow> handleMessage a b m = [] \<and> fire (SessionMessage sid a b m) s = s)"
  using handleMessage_empty_input [of m a b] handleMessage_empty_output [of m a b]
    handleMessage_empty_both [of m a b]
  by (simp split: option.splits)

theorem empty_text_produces_no_item_witness:
  "absent_or_empty (inputText emptyInputMessage)
   \<and> absent_or_empty (outputText emptyInputMessage)
   \<and> filter isUser (itemsOf (handleMessage stampA stampB emptyInputMessage)) = []
   \<and> handleMessage stampA stampB emptyInputMessage = []
   \<and> fire (SessionMessage 1 stampA stampB emptyInputMessage) mounted = mounted"
proof -
  have i: "absent_or_empty (inputText emptyInputMessage)"
    by (simp add: absent_or_empty_def inputText_def emptyInputMessage_def)
  have out: "absent_or_empty (outputText emptyInputMessage)"
    by (simp add: absent_or_empty_def outputText_def emptyInputMessage_def)
  show ?thesis
    using i out empty_text_produces_no_item [of emptyInputMessage stampA stampB 1 mounted]
    by simp
qed

section \<open>Properties of the session channel\<close>

lemma readyState_stopAudioStream [simp]:
  "readyState (snd (stopAudioStream sv p)) = readyState p"
  by (simp add: stopAudioStream_def Let_def split: option.splits)

lemma itemsOf_connect [simp]: "itemsOf (fst (connect l strm sv p)) = []"
  by (simp add: connect_def split: sum.splits)

lemma itemsOf_disconnect [simp]: "itemsOf (fst (disconnect sv p)) = []"
  by (simp add: disconnect_def Let_def split: prod.splits)

lemma itemsOf_sdk_onopen [simp]: "itemsOf (fst (sdk_onopen strm ctx sv p)) = []"
  by (simp add: sdk_onopen_def split: prod.splits)

lemma itemsOf_sdk_onclose [simp]: "itemsOf (fst (sdk_onclose sv p)) = []"
  by (simp add: sdk_onclose_def split: prod.splits)

lemma itemsOf_sdk_onerror [simp]: "itemsOf (fst (sdk_onerror sv p)) = []"
  by (simp add: sdk_onerror_def split: prod.splits)

text \<open>
  C10. \<^verbatim>\<open>disconnect()\<close> calls the state callback with Disconnected, and with nothing else,
  whatever the service and the platform are: whether or not a session was ever requested.
  It has no failing branch. In the component the state is Disconnected afterwards, from
  any state (Error included), and the error message is untouched.
\<close>

theorem disconnect_always_notifies_disconnected:
  "fst (disconnect sv p) = [OnStateChange DISCONNECTED]
   \<and> connectionState (call_service disconnect s) = DISCONNECTED
   \<and> errorMsg (call_service disconnect s) = errorMsg s"
  by (simp add: disconnect_def call_service_def Let_def split: prod.splits)

theorem disconnect_always_notifies_disconnected_witness:
  "fst (disconnect newService freshPlatform) = [OnStateChange DISCONNECTED]
   \<and> connectionState (call_service disconnect (mounted\<lparr>connectionState := ERROR\<rparr>))
       = DISCONNECTED"
  using disconnect_always_notifies_disconnected
          [of newService freshPlatform "mounted\<lparr>connectionState := ERROR\<rparr>"]
  by simp

section \<open>Properties of the lifecycle controller\<close>

subsection \<open>What stopping tracks does\<close>

lemma readyState_stop_each:
  "readyState (stop_each ts p) x = (if x \<in> track_id ` set ts then Ended else readyState p x)"
  by (induction ts arbitrary: p) (auto simp: track_stop_def)

lemma stopCalls_stop_each: "stopCalls (stop_each ts p) = stopCalls p @ map track_id ts"
  by (induction ts arbitrary: p) (auto simp: track_stop_def)

lemma no_tracks_at_all:
  "getAudioTracks ms = [] \<Longrightarrow> getVideoTracks ms = [] \<Longrightarrow> ms = []"
proof (induction ms)
  case Nil
  show ?case by simp
next
  case (Cons t ts)
  then show ?case by (cases "kind t") (auto simp: getAudioTracks_def getVideoTracks_def)
qed

subsection \<open>The log under every event\<close>

lemma transcripts_cleanupTracks [simp]: "transcripts (cleanupTracks s) = transcripts s"
  by (simp add: cleanupTracks_def)

lemma transcripts_call_service:
  "transcripts (call_service f s)
     = transcripts s @ itemsOf (fst (f (geminiServiceRef s) (platform s)))"
  by (simp add: call_service_def transcripts_deliver_each split: prod.splits)

lemma transcripts_handleStopMeeting [simp]:
  "transcripts (handleStopMeeting c s) = transcripts s"
  by (simp add: handleStopMeeting_def Let_def transcripts_call_service split: option.splits)

lemma transcripts_startBody: "transcripts (snd (startBody c env s)) = transcripts s"
  by (simp add: startBody_def Let_def transcripts_call_service
        split: sum.splits prod.splits list.splits)

lemma transcripts_handleStartMeeting [simp]:
  "transcripts (handleStartMeeting c env s) = transcripts s"
proof -
  let ?s0 = "cleanupTracks (s\<lparr>errorMsg := None\<rparr>)"
  have "transcripts (snd (startBody c env ?s0)) = transcripts s"
    by (simp add: transcripts_startBody)
  then show ?thesis
    by (cases "startBody c env ?s0")
       (auto simp: handleStartMeeting_def startFailed_def split: sum.splits)
qed

lemma transcripts_handleGenerateResponse [simp]:
  "transcripts (handleGenerateResponse s) = transcripts s"
  by (simp add: handleGenerateResponse_def Let_def)

lemma fire_appends: "\<exists>ys. transcripts (fire e s) = transcripts s @ ys"
  by (cases e)
     (simp_all add: onDismiss_def Let_def transcripts_call_service transcripts_deliver_each
        split: option.splits)

lemma run_appends: "\<exists>ys. transcripts (run es s) = transcripts s @ ys"
proof (induction es arbitrary: s)
  case Nil
  show ?case by simp
next
  case (Cons e es)
  obtain ys where 1: "transcripts (fire e s) = transcripts s @ ys"
    using fire_appends by blast
  obtain zs where 2: "transcripts (run es (fire e s)) = transcripts (fire e s) @ zs"
    using Cons.IH by blast
  show ?case using 1 2 by simp
qed

lemma items_run_messages:
  "sessionCallbacks (platform s) sid \<noteq> None \<Longrightarrow>
   transcripts (run (map (messageEvent sid) ms) s)
     = transcripts s @ concat (map (\<lambda>(a, b, m). itemsOf (handleMessage a b m)) ms)"
proof (induction ms arbitrary: s)
  case Nil
  show ?case by simp
next
  case (Cons x ms)
  obtain a b m where x: "x = (a, b, m)" by (cases x) auto
  obtain strm where reg: "sessionCallbacks (platform s) sid = Some strm"
    using Cons.prems by auto
  let ?s1 = "deliver_each (handleMessage a b m) s"
  have step: "fire (messageEvent sid (a, b, m)) s = ?s1"
    by (simp add: messageEvent_def reg)
  have "sessionCallbacks (platform ?s1) sid \<noteq> None"
    using Cons.prems by simp
  from Cons.IH [OF this] show ?case
    by (simp add: step transcripts_deliver_each x)
qed

text \<open>
  C4. The log only grows: after any sequence of events of any kind (clicks, tracks ending,
  session callbacks) the log is the old log followed by new items, so no logged item is
  changed or removed. The messages of a session add exactly the items \<^verbatim>\<open>handleMessage\<close>
  builds from them, in the order the messages arrive, and the texts of these items are the
  non-empty texts of the messages in that order. A dismissal, through the handler or the
  button, leaves the log as it was.
\<close>

theorem transcript_log_is_append_only:
  "(\<exists>ys. transcripts (run es s) = transcripts s @ ys)
   \<and> (sessionCallbacks (platform s) sid \<noteq> None \<longrightarrow>
        transcripts (run (map (messageEvent sid) ms) s)
          = transcripts s @ concat (map (\<lambda>(a, b, m). itemsOf (handleMessage a b m)) ms)
        \<and> map text_t (transcripts (run (map (messageEvent sid) ms) s))
          = map text_t (transcripts s) @ concat (map (\<lambda>(a, b, m). spokenTexts m) ms))
   \<and> transcripts (onDismiss s) = transcripts s
   \<and> transcripts (fire ClickDismiss s) = transcripts s"
proof -
  have texts: "map text_t (concat (map (\<lambda>(a, b, m). itemsOf (handleMessage a b m)) ms))
                 = concat (map (\<lambda>(a, b, m). spokenTexts m) ms)"
    by (induction ms) (auto simp: texts_handleMessage)
  show ?thesis
    using run_appends [of es s] items_run_messages [of s sid ms] texts
    by (simp add: onDismiss_def)
qed

theorem transcript_log_is_append_only_witness:
  "sessionCallbacks (platform connectingApp) 1 = Some [mixedTrack]
   \<and> map text_t (transcripts (run (map (messageEvent 1) exampleMessages) connectingApp))
       = [''hello'', ''hi there'', ''how are you'']"
proof -
  have reg: "sessionCallbacks (platform connectingApp) 1 = Some [mixedTrack]"
    by (simp add: connectingApp_def eval_defs)
  have t: "transcripts connectingApp = []"
    by (simp add: connectingApp_def mounted_def)
  have sp: "concat (map (\<lambda>(a, b, m). spokenTexts m) exampleMessages)
              = [''hello'', ''hi there'', ''how are you'']"
    by (simp add: exampleMessages_def spokenTexts_def inputText_def outputText_def
          inputMessage_def outputMessage_def)
  have "sessionCallbacks (platform connectingApp) 1 \<noteq> None \<longrightarrow>
          map text_t (transcripts (run (map (messageEvent 1) exampleMessages) connectingApp))
            = map text_t (transcripts connectingApp)
              @ concat (map (\<lambda>(a, b, m). spokenTexts m) exampleMessages)"
    using transcript_log_is_append_only [of "[]" connectingApp 1 exampleMessages] by blast
  then have "map text_t (transcripts (run (map (messageEvent 1) exampleMessages) connectingApp))
               = [''hello'', ''hi there'', ''how are you'']"
    unfolding t sp using reg by simp
  then show ?thesis
    using reg by simp
qed

subsection \<open>Asking for a suggestion\<close>

text \<open>
  C7. While the state is Disconnected, a request for a suggestion changes nothing: the
  handler returns the state it was given (transcript, connection state, suggestion slot
  and the text handed to sessions are all parts of that state), the button of the
  interface does the same, and the service itself sends nothing when it holds no session.
\<close>

theorem request_suggestion_while_disconnected_is_noop:
  assumes "connectionState s = DISCONNECTED"
  shows "handleGenerateResponse s = s \<and> fire ClickSuggest s = s
         \<and> (sessionPromise (geminiServiceRef s) = None
              \<longrightarrow> requestSuggestion (geminiServiceRef s) (platform s) = platform s)"
  using assms by (simp add: handleGenerateResponse_def requestSuggestion_def)

theorem request_suggestion_while_disconnected_is_noop_witness:
  "connectionState mounted = DISCONNECTED
   \<and> sessionPromise (geminiServiceRef mounted) = None
   \<and> handleGenerateResponse mounted = mounted \<and> fire ClickSuggest mounted = mounted
   \<and> requestSuggestion (geminiServiceRef mounted) (platform mounted) = platform mounted"
proof -
  have d: "connectionState mounted = DISCONNECTED"
    by (simp add: mounted_def)
  have n: "sessionPromise (geminiServiceRef mounted) = None"
    by (simp add: mounted_def newService_def)
  show ?thesis
    using d n request_suggestion_while_disconnected_is_noop [OF d] by simp
qed

subsection \<open>A start attempt that fails\<close>

lemma startBody_failure_tracks:
  assumes "startBody c env s0 = (Inl err, s1)" and "micAudioOnly env"
  shows "\<forall>t\<in>set (capturedTracks env).
           t \<in> set (activeTracksRef s1) \<or> readyState (platform s1) (track_id t) = Ended"
proof (cases "getUserMedia env")
  case (Inl e)
  then show ?thesis by (simp add: capturedTracks_def)
next
  case mic: (Inr micStream)
  show ?thesis
  proof (cases "getAudioTracks micStream = []")
    case True
    then have "micStream = []"
      using assms(2) mic no_tracks_at_all by (simp add: micAudioOnly_def)
    then show ?thesis using mic by (simp add: capturedTracks_def getAudioTracks_def)
  next
    case audio: False
    show ?thesis
    proof (cases "getDisplayMedia env")
      case (Inl e)
      then show ?thesis
        using assms(1) mic audio by (auto simp: capturedTracks_def startBody_def Let_def)
    next
      case disp: (Inr displayStream)
      show ?thesis
      proof (cases "getAudioTracks displayStream = []")
        case True
        then show ?thesis
          using assms(1) mic audio disp
          by (auto simp: capturedTracks_def startBody_def Let_def cleanupTracks_def
                readyState_stop_each split: if_splits)
      next
        case False
        then show ?thesis
          using assms(1) mic audio disp
          by (auto simp: capturedTracks_def startBody_def Let_def
                split: prod.splits sum.splits)
      qed
    qed
  qed
qed

lemma userMessage_nonempty: "userMessage err \<noteq> []"
  by (simp add: userMessage_def Let_def defaultMessage_def permissionMessage_def
        policyMessage_def)

lemma userMessage_noTabAudio: "userMessage (new_Error noTabAudioMessage) = noTabAudioMessage"
  by (simp add: userMessage_def new_Error_def noTabAudioMessage_def Let_def)

lemma startFailed_fields:
  "connectionState (startFailed err s) = ERROR"
  "errorMsg (startFailed err s) = Some (userMessage err)"
  "activeTracksRef (startFailed err s) = []"
  "readyState (platform (startFailed err s)) x
     = (if x \<in> track_id ` set (activeTracksRef s) then Ended else readyState (platform s) x)"
  by (simp_all add: startFailed_def cleanupTracks_def readyState_stop_each)

text \<open>
  C3. When the microphone stream has an audio track and the tab-share stream has none, the
  \<^verbatim>\<open>try\<close> block throws the tab-audio error, and in the state at the throw, before the
  \<^verbatim>\<open>catch\<close> block shows anything, every track of the tab-share stream (the video track)
  and every microphone track is already ended. The attempt ends in the Error state, with
  the tab-audio message, and with those tracks ended.
\<close>

theorem no_tab_audio_releases_before_error:
  assumes "getUserMedia env = Inr micStream" and "getAudioTracks micStream \<noteq> []"
    and "getDisplayMedia env = Inr displayStream" and "getAudioTracks displayStream = []"
  shows "fst (startBody c env (cleanupTracks (s\<lparr>errorMsg := None\<rparr>)))
           = Inl (new_Error noTabAudioMessage)
         \<and> (\<forall>t\<in>set micStream \<union> set displayStream.
               readyState
                 (platform (snd (startBody c env (cleanupTracks (s\<lparr>errorMsg := None\<rparr>)))))
                 (track_id t) = Ended)
         \<and> connectionState (handleStartMeeting c env s) = ERROR
         \<and> errorMsg (handleStartMeeting c env s) = Some noTabAudioMessage
         \<and> (\<forall>t\<in>set micStream \<union> set displayStream.
               readyState (platform (handleStartMeeting c env s)) (track_id t) = Ended)"
proof -
  let ?s0 = "cleanupTracks (s\<lparr>errorMsg := None\<rparr>)"
  let ?s1 = "?s0\<lparr>activeTracksRef := activeTracksRef ?s0 @ micStream\<rparr>"
  let ?s2 = "cleanupTracks (?s1\<lparr>platform := stop_each displayStream (platform ?s1)\<rparr>)"
  have body: "startBody c env ?s0 = (Inl (new_Error noTabAudioMessage), ?s2)"
    using assms by (simp add: startBody_def Let_def)
  have thrown: "\<forall>t\<in>set micStream \<union> set displayStream.
                  readyState (platform ?s2) (track_id t) = Ended"
    by (auto simp: cleanupTracks_def readyState_stop_each)
  have h: "handleStartMeeting c env s = startFailed (new_Error noTabAudioMessage) ?s2"
    by (simp add: handleStartMeeting_def body)
  have final: "\<forall>t\<in>set micStream \<union> set displayStream.
                 readyState (platform (startFailed (new_Error noTabAudioMessage) ?s2))
                   (track_id t) = Ended"
    using thrown by (simp add: startFailed_fields)
  show ?thesis
    using thrown final
    by (simp add: body h startFailed_fields userMessage_noTabAudio)
qed

theorem no_tab_audio_releases_before_error_witness:
  "getAudioTracks [micTrack] = [micTrack] \<and> getAudioTracks [tabVideoTrack] = []
   \<and> fst (startBody None noTabAudioEnv (cleanupTracks (mounted\<lparr>errorMsg := None\<rparr>)))
        = Inl (new_Error noTabAudioMessage)
   \<and> readyState (platform (snd (startBody None noTabAudioEnv
         (cleanupTracks (mounted\<lparr>errorMsg := None\<rparr>))))) (track_id micTrack) = Ended
   \<and> readyState (platform (snd (startBody None noTabAudioEnv
         (cleanupTracks (mounted\<lparr>errorMsg := None\<rparr>))))) (track_id tabVideoTrack) = Ended
   \<and> connectionState (handleStartMeeting None noTabAudioEnv mounted) = ERROR
   \<and> errorMsg (handleStartMeeting None noTabAudioEnv mounted) = Some noTabAudioMessage
   \<and> readyState (platform (handleStartMeeting None noTabAudioEnv mounted)) (track_id micTrack)
        = Ended
   \<and> readyState (platform (handleStartMeeting None noTabAudioEnv mounted))
        (track_id tabVideoTrack) = Ended"
proof -
  have m: "getUserMedia noTabAudioEnv = Inr [micTrack]"
    by (simp add: noTabAudioEnv_def goodEnv_def)
  have ma: "getAudioTracks [micTrack] \<noteq> []"
    by (simp add: getAudioTracks_def micTrack_def)
  have ma': "getAudioTracks [micTrack] = [micTrack]"
    by (simp add: getAudioTracks_def micTrack_def)
  have d: "getDisplayMedia noTabAudioEnv = Inr [tabVideoTrack]"
    by (simp add: noTabAudioEnv_def goodEnv_def)
  have da: "getAudioTracks [tabVideoTrack] = []"
    by (simp add: getAudioTracks_def tabVideoTrack_def)
  show ?thesis
    using ma' da no_tab_audio_releases_before_error [OF m ma d da, of None mounted]
    by simp
qed

text \<open>
  C2, as stated, fails. When the mixing context starts suspended and \<^verbatim>\<open>resume()\<close> rejects,
  the attempt ends in the Error state while the \<^verbatim>\<open>AudioContext\<close> created for mixing is
  still open: no path of the program closes that context. When the graph construction
  throws after the destination node exists, the context is open and the track of the
  destination's stream is live. When \<^verbatim>\<open>ai.live.connect\<close> throws, the service catches it and
  reports Error through the state callback: the \<^verbatim>\<open>catch\<close> block of the start does not run,
  there is no message, and the captured tracks are live.
\<close>

theorem failed_start_leaves_resources_open_counterexample:
  "connectionState (handleStartMeeting None resumeFailsEnv mounted) = ERROR
   \<and> openContexts (platform (handleStartMeeting None resumeFailsEnv mounted)) = [7]
   \<and> connectionState (handleStartMeeting None graphFailsEnv mounted) = ERROR
   \<and> openContexts (platform (handleStartMeeting None graphFailsEnv mounted)) = [7]
   \<and> readyState (platform (handleStartMeeting None graphFailsEnv mounted)) (track_id mixedTrack)
       = Live
   \<and> connectionState (handleStartMeeting None connectFailsEnv mounted) = ERROR
   \<and> errorMsg (handleStartMeeting None connectFailsEnv mounted) = None
   \<and> readyState (platform (handleStartMeeting None connectFailsEnv mounted)) (track_id micTrack)
       = Live"
  by (simp add: resumeFailsEnv_def resumeError_def graphFailsEnv_def graphError_def
        connectFailsEnv_def eval_defs)

text \<open>
  C2, amended. Whenever the \<^verbatim>\<open>try\<close> block of a start attempt throws (at the microphone
  request, the tab-share request, the creation or the resumption of the mixing context, or
  the construction of the graph), the attempt ends in the Error state with a message that
  is not empty, the set of active tracks is empty, and every source track the capture
  calls handed over, microphone and display, is ended. The microphone stream is that of an
  audio-only request.
\<close>

theorem start_failure_releases_captured_sources:
  assumes "fst (startBody c env (cleanupTracks (s\<lparr>errorMsg := None\<rparr>))) = Inl err"
    and "micAudioOnly env"
  shows "connectionState (handleStartMeeting c env s) = ERROR
         \<and> errorMsg (handleStartMeeting c env s) = Some (userMessage err)
         \<and> userMessage err \<noteq> []
         \<and> activeTracksRef (handleStartMeeting c env s) = []
         \<and> (\<forall>t\<in>set (capturedTracks env).
               readyState (platform (handleStartMeeting c env s)) (track_id t) = Ended)"
proof -
  let ?s0 = "cleanupTracks (s\<lparr>errorMsg := None\<rparr>)"
  obtain s1 where body: "startBody c env ?s0 = (Inl err, s1)"
    using assms(1) by (cases "startBody c env ?s0") auto
  have h: "handleStartMeeting c env s = startFailed err s1"
    by (simp add: handleStartMeeting_def body)
  have "\<forall>t\<in>set (capturedTracks env).
          t \<in> set (activeTracksRef s1) \<or> readyState (platform s1) (track_id t) = Ended"
    using startBody_failure_tracks [OF body assms(2)] .
  then have "\<forall>t\<in>set (capturedTracks env).
          readyState (platform (startFailed err s1)) (track_id t) = Ended"
    by (auto simp: startFailed_fields)
  then show ?thesis
    by (simp add: h startFailed_fields userMessage_nonempty)
qed

theorem start_failure_releases_captured_sources_witness:
  "fst (startBody None resumeFailsEnv (cleanupTracks (mounted\<lparr>errorMsg := None\<rparr>)))
     = Inl resumeError
   \<and> micAudioOnly resumeFailsEnv
   \<and> connectionState (handleStartMeeting None resumeFailsEnv mounted) = ERROR
   \<and> errorMsg (handleStartMeeting None resumeFailsEnv mounted)
       = Some ''Cannot resume a closed AudioContext.''
   \<and> activeTracksRef (handleStartMeeting None resumeFailsEnv mounted) = []
   \<and> readyState (platform (handleStartMeeting None resumeFailsEnv mounted)) (track_id micTrack)
       = Ended
   \<and> readyState (platform (handleStartMeeting None resumeFailsEnv mounted))
       (track_id tabAudioTrack) = Ended
   \<and> readyState (platform (handleStartMeeting None resumeFailsEnv mounted))
       (track_id tabVideoTrack) = Ended"
proof -
  have f: "fst (startBody None resumeFailsEnv (cleanupTracks (mounted\<lparr>errorMsg := None\<rparr>)))
             = Inl resumeError"
    by (simp add: resumeFailsEnv_def eval_defs)
  have a: "micAudioOnly resumeFailsEnv"
    by (simp add: micAudioOnly_def resumeFailsEnv_def goodEnv_def getVideoTracks_def
          micTrack_def)
  have c: "capturedTracks resumeFailsEnv = [micTrack, tabAudioTrack, tabVideoTrack]"
    by (simp add: capturedTracks_def resumeFailsEnv_def goodEnv_def getAudioTracks_def
          micTrack_def)
  have u: "userMessage resumeError = ''Cannot resume a closed AudioContext.''"
    by (simp add: userMessage_def resumeError_def)
  show ?thesis
    using f a start_failure_releases_captured_sources [OF f a] by (simp add: c u)
qed

subsection \<open>A start attempt that succeeds\<close>

lemma startBody_success:
  assumes "startBody c env s0 = (Inr u, s1)"
  shows "\<exists>micStream displayStream mixedStream.
           getUserMedia env = Inr micStream \<and> getDisplayMedia env = Inr displayStream
           \<and> getAudioTracks displayStream \<noteq> []
           \<and> activeTracksRef s1 = activeTracksRef s0 @ micStream @ displayStream
           \<and> stream s1 = Some mixedStream
           \<and> readyState (platform s1) = readyState (platform s0)
           \<and> stopCalls (platform s1) = stopCalls (platform s0)"
  using assms
  by (auto simp: startBody_def Let_def call_service_def connect_def mixStreams_def
        split: sum.splits if_splits prod.splits option.splits list.splits)

text \<open>
  C8, as stated, fails: after a start on a tab shared with audio, the video track of the
  tab is in the set of active tracks, and live.
\<close>

theorem video_track_retained_counterexample:
  "getAudioTracks [tabAudioTrack, tabVideoTrack] = [tabAudioTrack]
   \<and> tabVideoTrack \<in> set (activeTracksRef (fire (ClickStart goodEnv) mounted))
   \<and> readyState (platform (fire (ClickStart goodEnv) mounted)) (track_id tabVideoTrack) = Live"
  by (simp add: eval_defs)

text \<open>
  C8, amended. When a start attempt throws nothing, the set of active tracks is the
  microphone tracks followed by all tracks of the tab-share stream, its video tracks
  included; the attempt calls \<^verbatim>\<open>stop()\<close> only on the tracks that were active before it,
  so a tab-share track that was not among them is in the state it was captured in. The
  video track is kept, and released with the others at teardown.
\<close>

theorem video_track_retained_until_teardown:
  assumes "fst (startBody c env (cleanupTracks (s\<lparr>errorMsg := None\<rparr>))) = Inr ()"
    and "getUserMedia env = Inr micStream" and "getDisplayMedia env = Inr displayStream"
  shows "activeTracksRef (handleStartMeeting c env s) = micStream @ displayStream
         \<and> set (getVideoTracks displayStream)
             \<subseteq> set (activeTracksRef (handleStartMeeting c env s))
         \<and> stopCalls (platform (handleStartMeeting c env s))
             = stopCalls (platform s) @ map track_id (activeTracksRef s)
         \<and> (\<forall>t\<in>set displayStream.
               track_id t \<notin> track_id ` set (activeTracksRef s) \<longrightarrow>
               readyState (platform (handleStartMeeting c env s)) (track_id t)
                 = readyState (platform s) (track_id t))"
proof -
  let ?s0 = "cleanupTracks (s\<lparr>errorMsg := None\<rparr>)"
  obtain s1 where body: "startBody c env ?s0 = (Inr (), s1)"
    using assms(1) by (cases "startBody c env ?s0") auto
  have h: "handleStartMeeting c env s = s1"
    by (simp add: handleStartMeeting_def body)
  have a: "activeTracksRef s1 = micStream @ displayStream"
    and r: "readyState (platform s1) = readyState (platform ?s0)"
    and k: "stopCalls (platform s1) = stopCalls (platform ?s0)"
    using startBody_success [OF body] assms(2,3) by (auto simp: cleanupTracks_def)
  show ?thesis
    by (auto simp: h a r k cleanupTracks_def readyState_stop_each stopCalls_stop_each
          getVideoTracks_def)
qed

theorem video_track_retained_until_teardown_witness:
  "fst (startBody None goodEnv (cleanupTracks (mounted\<lparr>errorMsg := None\<rparr>))) = Inr ()
   \<and> activeTracksRef (handleStartMeeting None goodEnv mounted)
       = [micTrack, tabAudioTrack, tabVideoTrack]
   \<and> stopCalls (platform (handleStartMeeting None goodEnv mounted)) = []
   \<and> readyState (platform (handleStartMeeting None goodEnv mounted)) (track_id tabVideoTrack)
       = Live"
proof -
  have f: "fst (startBody None goodEnv (cleanupTracks (mounted\<lparr>errorMsg := None\<rparr>))) = Inr ()"
    by (simp add: eval_defs)
  have m: "getUserMedia goodEnv = Inr [micTrack]"
    and d: "getDisplayMedia goodEnv = Inr [tabAudioTrack, tabVideoTrack]"
    by (simp_all add: goodEnv_def)
  show ?thesis
    using f video_track_retained_until_teardown [OF f m d]
    by (simp add: mounted_def freshPlatform_def)
qed

subsection \<open>Teardown\<close>

lemma handleStopMeeting_fields:
  "connectionState (handleStopMeeting c s) = DISCONNECTED"
  "stream (handleStopMeeting c s) = None"
  "activeTracksRef (handleStopMeeting c s) = []"
  "sessionPromise (geminiServiceRef (handleStopMeeting c s)) = None"
  "errorMsg (handleStopMeeting c s) = errorMsg s"
  by (simp_all add: handleStopMeeting_def Let_def call_service_def disconnect_def
        cleanupTracks_def split: prod.splits option.splits)

lemma handleStopMeeting_readyState:
  "readyState (platform (handleStopMeeting c s)) x
     = (if x \<in> track_id ` (set (activeTracksRef s) \<union> set (streamTracks c)) then Ended
        else readyState (platform s) x)"
proof -
  obtain sv p where d: "stopAudioStream (geminiServiceRef s) (platform s) = (sv, p)"
    by (cases "stopAudioStream (geminiServiceRef s) (platform s)") auto
  have "readyState p = readyState (platform s)"
    using readyState_stopAudioStream [of "geminiServiceRef s" "platform s"] by (simp add: d)
  then show ?thesis
    by (cases c)
       (auto simp: handleStopMeeting_def Let_def call_service_def disconnect_def
          cleanupTracks_def readyState_stop_each streamTracks_def d)
qed

lemma handleStopMeeting_again:
  assumes "stream s = None" and "activeTracksRef s = []"
    and "sessionPromise (geminiServiceRef s) = None" and "connectionState s = DISCONNECTED"
  shows "handleStopMeeting None s = s"
  using assms
  by (simp add: handleStopMeeting_def Let_def call_service_def disconnect_def
        cleanupTracks_def)

text \<open>
  The End Meeting button, whenever it is shown: the state becomes Disconnected, and every
  active track and every track of the mixed stream held in the state is ended.
\<close>

lemma explicit_stop_releases_every_track:
  assumes "connectionState s = CONNECTING \<or> connectionState s = CONNECTED"
  shows "connectionState (fire ClickEnd s) = DISCONNECTED
         \<and> (\<forall>t\<in>set (activeTracksRef s) \<union> set (streamTracks (stream s)).
               readyState (platform (fire ClickEnd s)) (track_id t) = Ended)"
  using assms by (auto simp: handleStopMeeting_fields handleStopMeeting_readyState)

lemma stopAudioStream_service:
  "inputAudioContext (fst (stopAudioStream sv p)) = None"
  "mediaStreamSource (fst (stopAudioStream sv p)) = None"
  "scriptProcessor (fst (stopAudioStream sv p)) = None"
  by (auto simp: stopAudioStream_def Let_def split: option.splits)

lemma stopAudioStream_openContexts:
  "openContexts (snd (stopAudioStream sv p))
     = (case inputAudioContext sv of
          None \<Rightarrow> openContexts p
        | Some ctx \<Rightarrow> removeAll ctx (openContexts p))"
  by (simp add: stopAudioStream_def Let_def split: option.splits)

lemma openContexts_stop_each [simp]: "openContexts (stop_each ts p) = openContexts p"
  by (induction ts arbitrary: p) (auto simp: track_stop_def)

lemma handleStopMeeting_service:
  assumes "sessionPromise (geminiServiceRef s) \<noteq> None"
  shows "inputAudioContext (geminiServiceRef (handleStopMeeting c s)) = None
         \<and> mediaStreamSource (geminiServiceRef (handleStopMeeting c s)) = None
         \<and> scriptProcessor (geminiServiceRef (handleStopMeeting c s)) = None"
proof -
  obtain sv p where d: "stopAudioStream (geminiServiceRef s) (platform s) = (sv, p)"
    by (cases "stopAudioStream (geminiServiceRef s) (platform s)") auto
  have "inputAudioContext sv = None \<and> mediaStreamSource sv = None \<and> scriptProcessor sv = None"
    using stopAudioStream_service [of "geminiServiceRef s" "platform s"] by (simp add: d)
  then show ?thesis
    using assms
    by (cases c)
       (auto simp: handleStopMeeting_def Let_def call_service_def disconnect_def
          cleanupTracks_def d)
qed

lemma handleStopMeeting_openContexts:
  "openContexts (platform (handleStopMeeting c s))
     = (if sessionPromise (geminiServiceRef s) \<noteq> None
        then (case inputAudioContext (geminiServiceRef s) of
                None \<Rightarrow> openContexts (platform s)
              | Some ctx \<Rightarrow> removeAll ctx (openContexts (platform s)))
        else openContexts (platform s))"
proof -
  obtain sv p where d: "stopAudioStream (geminiServiceRef s) (platform s) = (sv, p)"
    by (cases "stopAudioStream (geminiServiceRef s) (platform s)") auto
  have "openContexts p
          = (case inputAudioContext (geminiServiceRef s) of
               None \<Rightarrow> openContexts (platform s)
             | Some ctx \<Rightarrow> removeAll ctx (openContexts (platform s)))"
    using stopAudioStream_openContexts [of "geminiServiceRef s" "platform s"] by (simp add: d)
  then show ?thesis
    by (cases c)
       (auto simp: handleStopMeeting_def Let_def call_service_def disconnect_def
          cleanupTracks_def d)
qed

text \<open>
  C6, as stated, fails. A stop while Connecting does not release everything acquired up to
  that point: the \<^verbatim>\<open>AudioContext\<close> created for mixing is still open after it, and the
  session requested from the service is not closed, so when it opens afterwards the state
  goes to Connected again.
\<close>

theorem stop_mid_connect_leaves_context_open_counterexample:
  "connectionState connectingApp = CONNECTING
   \<and> openContexts (platform connectingApp) = [7]
   \<and> connectionState (fire ClickEnd connectingApp) = DISCONNECTED
   \<and> openContexts (platform (fire ClickEnd connectingApp)) = [7]
   \<and> connectionState (run [ClickEnd, SessionOpened 1 9] connectingApp) = CONNECTED"
  by (simp add: connectingApp_def eval_defs)

text \<open>
  C6, amended. A stop right after a stop changes nothing at all: the second call, made from
  the render the first one leaves (where \<^verbatim>\<open>stream\<close> is \<^verbatim>\<open>null\<close>), returns the state the first
  one left, so the state stays Disconnected and no \<^verbatim>\<open>stop()\<close> is called again (the calls
  are part of the state). A stop always ends in the Disconnected state and leaves the error
  message as it was; it has no failing branch. When the state is Disconnected the interface
  offers no stop, and the click does nothing. A stop while Connecting is the stop handler on
  the current stream, and ends every active track and every track of the mixed stream.
  Every stop empties the set of active tracks, drops the stream and the session promise;
  when a session promise was held, the nodes of the outbound audio are dropped and the
  input context of the service is closed. That context is the only one a stop closes: every
  other open context, the one created for mixing included, stays open.
\<close>

theorem stop_is_idempotent:
  "handleStopMeeting (stream (handleStopMeeting c s)) (handleStopMeeting c s)
     = handleStopMeeting c s
   \<and> connectionState (handleStopMeeting c s) = DISCONNECTED
   \<and> errorMsg (handleStopMeeting c s) = errorMsg s
   \<and> (connectionState s = DISCONNECTED \<longrightarrow> fire ClickEnd s = s)
   \<and> (connectionState s = CONNECTING \<longrightarrow>
        fire ClickEnd s = handleStopMeeting (stream s) s
        \<and> connectionState (fire ClickEnd s) = DISCONNECTED
        \<and> (\<forall>t\<in>set (activeTracksRef s) \<union> set (streamTracks (stream s)).
              readyState (platform (fire ClickEnd s)) (track_id t) = Ended))
   \<and> activeTracksRef (handleStopMeeting c s) = []
   \<and> stream (handleStopMeeting c s) = None
   \<and> sessionPromise (geminiServiceRef (handleStopMeeting c s)) = None
   \<and> (sessionPromise (geminiServiceRef s) \<noteq> None \<longrightarrow>
        inputAudioContext (geminiServiceRef (handleStopMeeting c s)) = None
        \<and> mediaStreamSource (geminiServiceRef (handleStopMeeting c s)) = None
        \<and> scriptProcessor (geminiServiceRef (handleStopMeeting c s)) = None)
   \<and> openContexts (platform (handleStopMeeting c s))
       = (if sessionPromise (geminiServiceRef s) \<noteq> None
          then (case inputAudioContext (geminiServiceRef s) of
                  None \<Rightarrow> openContexts (platform s)
                | Some ctx \<Rightarrow> removeAll ctx (openContexts (platform s)))
          else openContexts (platform s))"
proof -
  let ?s1 = "handleStopMeeting c s"
  have "handleStopMeeting None ?s1 = ?s1"
    by (rule handleStopMeeting_again) (simp_all add: handleStopMeeting_fields)
  then have again: "handleStopMeeting (stream ?s1) ?s1 = ?s1"
    by (simp add: handleStopMeeting_fields)
  have ctxs: "openContexts (platform ?s1)
       = (if sessionPromise (geminiServiceRef s) \<noteq> None
          then (case inputAudioContext (geminiServiceRef s) of
                  None \<Rightarrow> openContexts (platform s)
                | Some ctx \<Rightarrow> removeAll ctx (openContexts (platform s)))
          else openContexts (platform s))"
    by (rule handleStopMeeting_openContexts)
  show ?thesis
    using again handleStopMeeting_service [of s c] ctxs
    by (simp add: handleStopMeeting_fields handleStopMeeting_readyState)
qed

theorem stop_is_idempotent_witness:
  "connectionState connectingApp = CONNECTING
   \<and> connectionState (fire ClickEnd connectingApp) = DISCONNECTED
   \<and> readyState (platform (fire ClickEnd connectingApp)) (track_id micTrack) = Ended
   \<and> readyState (platform (fire ClickEnd connectingApp)) (track_id tabVideoTrack) = Ended
   \<and> readyState (platform (fire ClickEnd connectingApp)) (track_id mixedTrack) = Ended
   \<and> handleStopMeeting None (handleStopMeeting (Some [mixedTrack]) connectingApp)
       = handleStopMeeting (Some [mixedTrack]) connectingApp
   \<and> connectionState mounted = DISCONNECTED \<and> fire ClickEnd mounted = mounted
   \<and> sessionPromise (geminiServiceRef connectedApp) = Some 1
   \<and> inputAudioContext (geminiServiceRef connectedApp) = Some 9
   \<and> openContexts (platform connectedApp) = [7, 9]
   \<and> sessionPromise (geminiServiceRef (handleStopMeeting (Some [mixedTrack]) connectedApp)) = None
   \<and> inputAudioContext (geminiServiceRef (handleStopMeeting (Some [mixedTrack]) connectedApp))
       = None
   \<and> mediaStreamSource (geminiServiceRef (handleStopMeeting (Some [mixedTrack]) connectedApp))
       = None
   \<and> scriptProcessor (geminiServiceRef (handleStopMeeting (Some [mixedTrack]) connectedApp))
       = None
   \<and> openContexts (platform (handleStopMeeting (Some [mixedTrack]) connectedApp)) = [7]"
proof -
  have c: "connectionState connectingApp = CONNECTING"
    by (simp add: connectingApp_def eval_defs)
  have a: "activeTracksRef connectingApp = [micTrack, tabAudioTrack, tabVideoTrack]"
    by (simp add: connectingApp_def eval_defs)
  have st: "stream connectingApp = Some [mixedTrack]"
    by (simp add: connectingApp_def eval_defs)
  have m: "connectionState mounted = DISCONNECTED"
    by (simp add: mounted_def)
  have sp: "sessionPromise (geminiServiceRef connectedApp) = Some 1"
    by (simp add: connectedApp_def connectingApp_def eval_defs)
  have ic: "inputAudioContext (geminiServiceRef connectedApp) = Some 9"
    by (simp add: connectedApp_def connectingApp_def eval_defs)
  have oc: "openContexts (platform connectedApp) = [7, 9]"
    by (simp add: connectedApp_def connectingApp_def eval_defs)
  have e: "connectionState connectingApp = CONNECTING \<longrightarrow>
            fire ClickEnd connectingApp = handleStopMeeting (stream connectingApp) connectingApp
            \<and> connectionState (fire ClickEnd connectingApp) = DISCONNECTED
            \<and> (\<forall>t\<in>set (activeTracksRef connectingApp)
                      \<union> set (streamTracks (stream connectingApp)).
                  readyState (platform (fire ClickEnd connectingApp)) (track_id t) = Ended)"
    and i: "handleStopMeeting (stream (handleStopMeeting (Some [mixedTrack]) connectingApp))
              (handleStopMeeting (Some [mixedTrack]) connectingApp)
            = handleStopMeeting (Some [mixedTrack]) connectingApp"
    using stop_is_idempotent [of "Some [mixedTrack]" connectingApp] by blast+
  have n: "connectionState mounted = DISCONNECTED \<longrightarrow> fire ClickEnd mounted = mounted"
    using stop_is_idempotent [of None mounted] by blast
  have s1: "stream (handleStopMeeting (Some [mixedTrack]) connectingApp) = None"
    by (simp add: handleStopMeeting_fields)
  let ?t = "handleStopMeeting (Some [mixedTrack]) connectedApp"
  have r: "sessionPromise (geminiServiceRef ?t) = None"
    and q: "sessionPromise (geminiServiceRef connectedApp) \<noteq> None \<longrightarrow>
              inputAudioContext (geminiServiceRef ?t) = None
              \<and> mediaStreamSource (geminiServiceRef ?t) = None
              \<and> scriptProcessor (geminiServiceRef ?t) = None"
    and o: "openContexts (platform ?t)
              = (if sessionPromise (geminiServiceRef connectedApp) \<noteq> None
                 then (case inputAudioContext (geminiServiceRef connectedApp) of
                         None \<Rightarrow> openContexts (platform connectedApp)
                       | Some ctx \<Rightarrow> removeAll ctx (openContexts (platform connectedApp)))
                 else openContexts (platform connectedApp))"
    using stop_is_idempotent [of "Some [mixedTrack]" connectedApp] by blast+
  have o': "openContexts (platform ?t) = [7]"
    unfolding o sp ic oc by simp
  show ?thesis
    using c m e i n sp ic oc r q o' unfolding s1 by (simp add: a st streamTracks_def)
qed

text \<open>
  C1, on the path where the tab-share video track ends remotely. In the example meeting
  the session opens and then the video track (id 3) ends. The handler in \<^verbatim>\<open>onended\<close> is
  the \<^verbatim>\<open>handleStopMeeting\<close> of the render in which Start Meeting was clicked, where
  \<^verbatim>\<open>stream\<close> was still \<^verbatim>\<open>null\<close>: the state becomes Disconnected and the source tracks are
  ended, but the track of the mixed stream stays live, and the state no longer holds the
  stream. The End Meeting button at the same point ends that track too.
\<close>

theorem remote_end_leaves_mixed_track_live:
  "connectionState (run [ClickStart goodEnv, SessionOpened 1 9] mounted) = CONNECTED
   \<and> connectionState (run [ClickStart goodEnv, SessionOpened 1 9, TrackEnded 3] mounted)
       = DISCONNECTED
   \<and> readyState (platform (run [ClickStart goodEnv, SessionOpened 1 9, TrackEnded 3] mounted))
        (track_id micTrack) = Ended
   \<and> readyState (platform (run [ClickStart goodEnv, SessionOpened 1 9, TrackEnded 3] mounted))
        (track_id mixedTrack) = Live
   \<and> stream (run [ClickStart goodEnv, SessionOpened 1 9, TrackEnded 3] mounted) = None
   \<and> readyState (platform (run [ClickStart goodEnv, SessionOpened 1 9, ClickEnd] mounted))
        (track_id mixedTrack) = Ended"
  by (simp add: eval_defs)

end
